theory Spec2Isabelle
  imports Complex_Main "HOL-Library.Sublist" "HOL-Library.AList"
begin

section \<open>Python strings\<close>

text \<open>
  A Python \<open>str\<close> is a sequence of Unicode code points, and \<open>len\<close>, slicing and
  \<open>*\<close> count code points. The script prints glyphs outside ASCII (the bar glyphs
  U+2588 and U+2591, the dash U+2014), so a string is modelled as the list of its code
  points. \<open>u\<close> reads an ASCII literal as such a list.
\<close>

type_synonym pystr = "nat list"

definition u :: "string \<Rightarrow> pystr" where
  "u s = map of_char s"

section \<open>Colour thresholds\<close>

definition COLOR_GREEN :: pystr where "COLOR_GREEN = u ''#6BDB7B''"
definition COLOR_YELLOW :: pystr where "COLOR_YELLOW = u ''#FFD95C''"
definition COLOR_ORANGE :: pystr where "COLOR_ORANGE = u ''#FF9F43''"
definition COLOR_RED :: pystr where "COLOR_RED = u ''#FF6B6B''"
definition COLOR_GRAY :: pystr where "COLOR_GRAY = u ''#8E8E93''"
definition COLOR_WHITE :: pystr where "COLOR_WHITE = u ''#FFFFFF''"
definition COLOR_DIM :: pystr where "COLOR_DIM = u ''#A0A0A8''"
definition COLOR_LABEL :: pystr where "COLOR_LABEL = u ''#B0B0B8''"

text \<open>
  \<open>get_color(pct)\<close>, source lines 96-104. The argument is a Python number; a finite
  float or an int is the real number it denotes, and its comparison with the integer
  constants 95, 80 and 50 is exact.
\<close>

definition get_color :: "real \<Rightarrow> pystr" where
  "get_color pct =
     (if pct \<ge> 95 then COLOR_RED
      else if pct \<ge> 80 then COLOR_ORANGE
      else if pct \<ge> 50 then COLOR_YELLOW
      else COLOR_GREEN)"

section \<open>Numbers\<close>

text \<open>
  Python \<open>int\<close> is \<open>int\<close>. A finite Python \<open>float\<close> is modelled by the real number
  it denotes. The result of a float division or multiplication is the exact result
  rounded to a float; the rounding is the parameter \<open>fl\<close> of every function that
  computes with floats, and \<open>float_rounding fl\<close> states what is used of it: rounding
  is monotone, and a number \<open>k / 2 ^ n\<close> with a 53-bit numerator is a float and
  rounds to itself. Infinities, NaN, the negative zero and overflow are not modelled.
\<close>

definition float_rounding :: "(real \<Rightarrow> real) \<Rightarrow> bool" where
  "float_rounding fl \<longleftrightarrow>
     (\<forall>x y. x \<le> y \<longrightarrow> fl x \<le> fl y) \<and>
     (\<forall>k n. \<bar>k\<bar> \<le> 2 ^ 53 \<and> n \<le> 1074 \<longrightarrow>
        fl (real_of_int k / 2 ^ n) = real_of_int k / 2 ^ n)"

text \<open>\<open>int(x)\<close> of a float truncates toward zero.\<close>

definition py_int :: "real \<Rightarrow> int" where
  "py_int x = (if 0 \<le> x then \<lfloor>x\<rfloor> else \<lceil>x\<rceil>)"

text \<open>\<open>s * n\<close> repeats a string; it is empty when \<open>n \<le> 0\<close>.\<close>

definition py_repeat :: "pystr \<Rightarrow> int \<Rightarrow> pystr" where
  "py_repeat s n = concat (replicate (nat n) s)"

text \<open>Decimal digits of a natural number, code point 48 being the digit zero.\<close>

fun digits :: "nat \<Rightarrow> pystr" where
  "digits n = (if n < 10 then [48 + n] else digits (n div 10) @ [48 + n mod 10])"

declare digits.simps [simp del]

text \<open>\<open>str(n)\<close> and \<open>f"{n}"\<close> of an int.\<close>

definition py_str_int :: "int \<Rightarrow> pystr" where
  "py_str_int n = (if n < 0 then u ''-'' @ digits (nat (- n)) else digits (nat n))"

text \<open>
  The format specification \<open>.<d>f\<close>: the value is rounded to \<open>d\<close> decimals, ties to
  the even neighbour, and printed with a sign only when it is negative.
\<close>

definition round_half_even :: "real \<Rightarrow> int" where
  "round_half_even x =
     (let f = \<lfloor>x\<rfloor>; r = x - real_of_int f
      in if r < 1 / 2 then f else if 1 / 2 < r then f + 1
         else if even f then f else f + 1)"

definition zfill :: "nat \<Rightarrow> pystr \<Rightarrow> pystr" where
  "zfill w s = replicate (w - length s) 48 @ s"

definition py_format_f :: "nat \<Rightarrow> real \<Rightarrow> pystr" where
  "py_format_f d x =
     (let n = nat (round_half_even (\<bar>x\<bar> * 10 ^ d))
      in (if x < 0 then u ''-'' else []) @ digits (n div 10 ^ d) @
         (if d = 0 then [] else u ''.'' @ zfill d (digits (n mod 10 ^ d))))"

section \<open>Metrics formatter\<close>

definition FULL_BLOCK :: nat where "FULL_BLOCK = 0x2588"
definition LIGHT_SHADE :: nat where "LIGHT_SHADE = 0x2591"

text \<open>\<open>bar_graph(pct, width)\<close>, source lines 107-111.\<close>

definition bar_graph :: "(real \<Rightarrow> real) \<Rightarrow> real \<Rightarrow> int \<Rightarrow> pystr" where
  "bar_graph fl pct width =
     (let filled = py_int (fl (fl (pct / 100) * real_of_int width));
          filled = min filled width
      in py_repeat [FULL_BLOCK] filled @ py_repeat [LIGHT_SHADE] (width - filled))"

text \<open>
  Exceptions are values. \<open>LibraryError msg\<close> is an exception raised by the external
  analyzer library whose \<open>str\<close> is \<open>msg\<close>.
\<close>

datatype py_error =
  ZeroDivisionError | TypeError | AttributeError | ValueError | OverflowError | OSError
  | LibraryError pystr



section \<open>Settings store\<close>

text \<open>
  What \<open>json.load\<close> returns: \<open>None\<close>, a bool, an int, a float, a str, a list or a
  dict. A dict keeps its keys in insertion order and is an association list;
  \<open>d.get(k)\<close> is \<open>map_of d k\<close> and \<open>d[k] = v\<close> is \<open>AList.update k v d\<close>, which
  replaces the value of a key that is present and appends a new key at the end.
\<close>

datatype json =
  JNull | JBool bool | JInt int | JFloat real | JStr pystr
  | JArr "json list" | JObj "(pystr \<times> json) list"

text \<open>
  A file on disk as the script sees it: the path does not exist; or it exists and
  \<open>open\<close> or \<open>json.load\<close> raises; or it exists and \<open>json.load\<close> returns a value.
\<close>

datatype file_state = Absent | Unreadable | Doc json

text \<open>
  The part of the environment the settings store works on: the variable \<open>CCM_PLAN\<close>
  (\<open>os.environ.get("CCM_PLAN", "")\<close>), the file at \<open>CONFIG_PATH\<close>, the legacy file
  \<open>last_used.json\<close>, and whether \<open>mkdir\<close>, \<open>open(CONFIG_PATH, "w")\<close> and \<open>json.dump\<close>
  succeed (they raise \<open>OSError\<close> otherwise, before anything is written).
  \<open>script_path\<close> is \<open>os.path.realpath(__file__)\<close>.
\<close>

record world =
  environ_CCM_PLAN :: pystr
  config_file :: file_state
  params_file :: file_state
  config_writable :: bool
  script_path :: pystr

definition VALID_PLANS :: "pystr list" where
  "VALID_PLANS = [u ''pro'', u ''max5'', u ''max20'', u ''custom'']"

definition DISPLAY_METRICS :: "(pystr \<times> pystr) list" where
  "DISPLAY_METRICS =
     [(u ''token_pct'', u ''Token %''),
      (u ''cost'', u ''Cost ($)''),
      (u ''cost_pct'', u ''Cost %''),
      (u ''msg'', u ''Messages''),
      (u ''msg_pct'', u ''Message %'')]"

definition DEFAULT_DISPLAY :: "pystr list" where
  "DEFAULT_DISPLAY = [u ''token_pct'', u ''cost'']"

text \<open>\<open>{k for k, _ in DISPLAY_METRICS}\<close>\<close>

definition valid_keys :: "pystr set" where
  "valid_keys = set (map fst DISPLAY_METRICS)"

text \<open>
  \<open>str.lower()\<close> and \<open>str.strip()\<close>. An ASCII capital becomes its small letter, and
  so does the Kelvin sign U+212A, the one code point outside ASCII whose lower case is
  an ASCII letter. Every other code point is left as it is: its lower case is outside
  ASCII too, and the results are only tested for membership in sets of ASCII strings.
  \<open>strip\<close> removes the code points for which \<open>str.isspace\<close> holds from both ends.
\<close>

definition py_lower :: "pystr \<Rightarrow> pystr" where
  "py_lower s =
     map (\<lambda>c. if 65 \<le> c \<and> c \<le> 90 then c + 32 else if c = 0x212A then 107 else c) s"

definition py_isspace :: "nat \<Rightarrow> bool" where
  "py_isspace c \<longleftrightarrow>
     (9 \<le> c \<and> c \<le> 13) \<or> (28 \<le> c \<and> c \<le> 32) \<or> c = 0x85 \<or> c = 0xA0 \<or> c = 0x1680 \<or>
     (0x2000 \<le> c \<and> c \<le> 0x200A) \<or> c = 0x2028 \<or> c = 0x2029 \<or> c = 0x202F \<or>
     c = 0x205F \<or> c = 0x3000"

definition py_strip :: "pystr \<Rightarrow> pystr" where
  "py_strip s = rev (dropWhile py_isspace (rev (dropWhile py_isspace s)))"

text \<open>
  \<open>config.get(key)\<close>: only a dict has the method; on any other value the attribute
  lookup raises \<open>AttributeError\<close>. The result \<open>None\<close> stands for Python's \<open>None\<close>
  returned for a missing key.
\<close>

definition py_get :: "json \<Rightarrow> pystr \<Rightarrow> py_error + json option" where
  "py_get config key =
     (case config of JObj kvs \<Rightarrow> Inr (map_of kvs key) | _ \<Rightarrow> Inl AttributeError)"

text \<open>
  \<open>config[key] = value\<close>: a dict takes the item; a list, a str, a number, a bool and
  \<open>None\<close> raise \<open>TypeError\<close>.
\<close>

definition py_setitem :: "json \<Rightarrow> pystr \<Rightarrow> json \<Rightarrow> py_error + json" where
  "py_setitem config key v =
     (case config of JObj kvs \<Rightarrow> Inr (JObj (AList.update key v kvs)) | _ \<Rightarrow> Inl TypeError)"

text \<open>
  \<open>[d for d in display if d in valid_keys]\<close>, where \<open>valid_keys\<close> is a set of strings:
  the membership test hashes \<open>d\<close>, so a list or a dict raises \<open>TypeError\<close>; a string is
  kept when it is a key; any other value is hashable, differs from every string and is
  dropped.
\<close>

fun filter_valid :: "json list \<Rightarrow> py_error + pystr list" where
  "filter_valid [] = Inr []"
| "filter_valid (d # ds) =
     (case d of
        JArr _ \<Rightarrow> Inl TypeError
      | JObj _ \<Rightarrow> Inl TypeError
      | JStr s \<Rightarrow>
          (case filter_valid ds of
             Inl e \<Rightarrow> Inl e
           | Inr r \<Rightarrow> Inr (if s \<in> valid_keys then s # r else r))
      | _ \<Rightarrow> filter_valid ds)"

text \<open>
  \<open>get_display()\<close>, source lines 201-215. \<open>get_display_try\<close> is the body of the
  \<open>try\<close> after \<open>json.load\<close> has returned \<open>config\<close>: it raises, returns the filtered
  list (\<open>Some\<close>), or falls through to the default (\<open>None\<close>). \<open>except Exception: pass\<close>
  turns a raise into the fall-through.
\<close>

definition get_display_try :: "json \<Rightarrow> py_error + pystr list option" where
  "get_display_try config =
     (case py_get config (u ''display'') of
        Inl e \<Rightarrow> Inl e
      | Inr (Some (JArr display)) \<Rightarrow>
          (case filter_valid display of
             Inl e \<Rightarrow> Inl e
           | Inr filtered \<Rightarrow> Inr (if filtered \<noteq> [] then Some filtered else None))
      | Inr _ \<Rightarrow> Inr None)"

definition get_display :: "'a world_scheme \<Rightarrow> pystr list" where
  "get_display w =
     (case config_file w of
        Doc config \<Rightarrow>
          (case get_display_try config of
             Inr (Some filtered) \<Rightarrow> filtered
           | _ \<Rightarrow> DEFAULT_DISPLAY)
      | _ \<Rightarrow> DEFAULT_DISPLAY)"

text \<open>
  \<open>_save_config(key, value)\<close>, source lines 231-244, named \<open>save_config\<close> here. The
  document is read (empty when the file is missing or does not load), one key is set,
  and the whole document is written back. An exception leaves the file as it was.
\<close>

definition save_config :: "pystr \<Rightarrow> json \<Rightarrow> 'a world_scheme \<Rightarrow> py_error + 'a world_scheme" where
  "save_config key v w =
     (let config = (case config_file w of Doc j \<Rightarrow> j | _ \<Rightarrow> JObj [])
      in case py_setitem config key v of
           Inl e \<Rightarrow> Inl e
         | Inr config' \<Rightarrow>
             if config_writable w then Inr (w\<lparr>config_file := Doc config'\<rparr>)
             else Inl OSError)"

text \<open>\<open>toggle_display(metric)\<close>, source lines 218-228.\<close>

definition toggle_display :: "pystr \<Rightarrow> 'a world_scheme \<Rightarrow> py_error + 'a world_scheme" where
  "toggle_display metric w =
     (let current = get_display w;
          current = (if metric \<in> set current then remove1 metric current
                     else current @ [metric]);
          current = (if current = [] then DEFAULT_DISPLAY else current)
      in save_config (u ''display'') (JArr (map JStr current)) w)"


text \<open>
  \<open>get_plan()\<close>, source lines 163-193. \<open>plan_try\<close> is the body of either \<open>try\<close> after
  \<open>json.load\<close>: \<open>params.get("plan", "").lower().strip()\<close> raises \<open>AttributeError\<close> when
  the document is not a dict or the value is not a string. \<open>plan_from_file\<close> is the
  whole \<open>if path.exists(): try ... except Exception: pass\<close> block; \<open>None\<close> means
  that control falls through to the next source.
\<close>

definition plan_try :: "json \<Rightarrow> py_error + pystr" where
  "plan_try config =
     (case py_get config (u ''plan'') of
        Inl e \<Rightarrow> Inl e
      | Inr None \<Rightarrow> Inr (py_strip (py_lower []))
      | Inr (Some (JStr s)) \<Rightarrow> Inr (py_strip (py_lower s))
      | Inr (Some _) \<Rightarrow> Inl AttributeError)"

definition plan_from_file :: "file_state \<Rightarrow> pystr option" where
  "plan_from_file f =
     (case f of
        Doc config \<Rightarrow>
          (case plan_try config of
             Inr plan \<Rightarrow> if plan \<in> set VALID_PLANS then Some plan else None
           | Inl _ \<Rightarrow> None)
      | _ \<Rightarrow> None)"

definition get_plan :: "'a world_scheme \<Rightarrow> pystr" where
  "get_plan w =
     (let plan = py_strip (py_lower (environ_CCM_PLAN w))
      in if plan \<in> set VALID_PLANS then plan
         else case plan_from_file (config_file w) of
                Some plan \<Rightarrow> plan
              | None \<Rightarrow>
                  (case plan_from_file (params_file w) of
                     Some plan \<Rightarrow> plan
                   | None \<Rightarrow> u ''pro''))"

text \<open>
  The words of the specification for \<open>get_display\<close>: the stored value of the key
  \<open>display\<close> (empty when there is no such list), and its filter to the recognized
  identifiers.
\<close>

definition stored_display :: "file_state \<Rightarrow> json list" where
  "stored_display f =
     (case f of
        Doc (JObj kvs) \<Rightarrow>
          (case map_of kvs (u ''display'') of Some (JArr ds) \<Rightarrow> ds | _ \<Rightarrow> [])
      | _ \<Rightarrow> [])"

definition recognized :: "json list \<Rightarrow> pystr list" where
  "recognized ds =
     filter (\<lambda>s. s \<in> valid_keys)
       (concat (map (\<lambda>d. case d of JStr s \<Rightarrow> [s] | _ \<Rightarrow> []) ds))"

text \<open>
  Two invocations of \<open>toggle_display\<close> with the same metric, one after the other;
  the second runs on the file the first has written.
\<close>

definition toggle_twice :: "pystr \<Rightarrow> 'a world_scheme \<Rightarrow> py_error + 'a world_scheme" where
  "toggle_twice metric w =
     (case toggle_display metric w of
        Inl e \<Rightarrow> Inl e
      | Inr w1 \<Rightarrow> toggle_display metric w1)"

text \<open>The list that \<open>toggle_display\<close> saves, as a function of the list it has loaded.\<close>

definition toggled :: "pystr \<Rightarrow> pystr list \<Rightarrow> pystr list" where
  "toggled m xs =
     (let c = (if m \<in> set xs then remove1 m xs else xs @ [m])
      in if c = [] then DEFAULT_DISPLAY else c)"

text \<open>
  A writable settings file whose document is \<open>{"display": ds}\<close>, with no plan in the
  environment and no legacy file.
\<close>

definition settings_with_display :: "json list \<Rightarrow> world" where
  "settings_with_display ds =
     \<lparr>environ_CCM_PLAN = [], config_file = Doc (JObj [(u ''display'', JArr ds)]),
      params_file = Absent, config_writable = True, script_path = u ''/ccm.30s.py''\<rparr>"

section \<open>Render pipeline\<close>

subsection \<open>Formatting\<close>

definition TITLE_FONT :: pystr where "TITLE_FONT = u ''SFMono-Regular''"
definition TITLE_SIZE :: int where "TITLE_SIZE = 12"
definition TITLE_OFFSET :: int where "TITLE_OFFSET = 2"
definition MONO_FONT :: pystr where "MONO_FONT = u ''SFMono-Regular''"
definition BODY_SIZE :: int where "BODY_SIZE = 12"
definition SMALL_SIZE :: int where "SMALL_SIZE = 11"

definition EM_DASH :: nat where "EM_DASH = 0x2014"
definition CHECK_MARK :: nat where "CHECK_MARK = 0x2713"
definition RIGHT_ARROW :: nat where "RIGHT_ARROW = 0x2192"
definition ELLIPSIS :: nat where "ELLIPSIS = 0x2026"
definition WARNING_SIGN :: nat where "WARNING_SIGN = 0x26A0"

text \<open>\<open>fmt_number(n)\<close>, source lines 114-116: the format \<open>,\<close> groups the digits in threes.\<close>

fun group_thousands :: "nat \<Rightarrow> pystr" where
  "group_thousands n =
     (if n < 1000 then digits n
      else group_thousands (n div 1000) @ u '','' @ zfill 3 (digits (n mod 1000)))"

declare group_thousands.simps [simp del]

definition fmt_number :: "int \<Rightarrow> pystr" where
  "fmt_number n = (if n < 0 then u ''-'' else []) @ group_thousands (nat \<bar>n\<bar>)"

text \<open>\<open>fmt_cost(c)\<close>, source lines 119-121.\<close>

definition fmt_cost :: "real \<Rightarrow> pystr" where
  "fmt_cost c = u ''$'' @ py_format_f 2 c"

text \<open>
  \<open>fmt_duration(minutes)\<close>, source lines 131-139. \<open>minutes // 60\<close> is the floor of the
  quotient and \<open>minutes % 60\<close> the remainder that goes with it; both are taken exactly.
\<close>

definition fmt_duration :: "real \<Rightarrow> pystr" where
  "fmt_duration minutes =
     (if minutes < 1 then u ''<1m''
      else if minutes < 60 then py_str_int (py_int minutes) @ u ''m''
      else let hours = py_int (real_of_int \<lfloor>minutes / 60\<rfloor>);
               mins = py_int (minutes - 60 * real_of_int \<lfloor>minutes / 60\<rfloor>)
           in py_str_int hours @ u ''h '' @ py_str_int mins @ u ''m'')"

text \<open>
  The formats \<open>>10\<close> and \<open><24\<close>: pad with spaces on the left, or on the right, to
  the given number of code points.
\<close>

definition py_rjust :: "nat \<Rightarrow> pystr \<Rightarrow> pystr" where
  "py_rjust w s = replicate (w - length s) 32 @ s"

definition py_ljust :: "nat \<Rightarrow> pystr \<Rightarrow> pystr" where
  "py_ljust w s = s @ replicate (w - length s) 32"

text \<open>\<open>sep.join(parts)\<close>\<close>

fun py_join :: "pystr \<Rightarrow> pystr list \<Rightarrow> pystr" where
  "py_join sep [] = []"
| "py_join sep [x] = x"
| "py_join sep (x # y # ys) = x @ sep @ py_join sep (y # ys)"

text \<open>
  \<open>str.upper()\<close> on ASCII. It is evaluated only as the default of
  \<open>PLAN_LABELS.get(current_plan, current_plan.upper())\<close>.
\<close>

definition py_upper :: "pystr \<Rightarrow> pystr" where
  "py_upper s = map (\<lambda>c. if 97 \<le> c \<and> c \<le> 122 then c - 32 else c) s"

subsection \<open>Printing\<close>

text \<open>
  Standard output is the list of the lines printed. Each function that prints returns
  the lines it prints, in order.
\<close>

text \<open>\<open>print_error(title, message)\<close>, source lines 247-252.\<close>

definition print_error :: "pystr \<Rightarrow> pystr \<Rightarrow> pystr list" where
  "print_error title message =
     [u ''CCM '' @ [EM_DASH] @ u '' | color='' @ COLOR_GRAY @ u '' font='' @ TITLE_FONT @
        u '' size='' @ py_str_int TITLE_SIZE @ u '' offset='' @ py_str_int TITLE_OFFSET,
      u ''---'',
      title @ u '' | color='' @ COLOR_RED @ u '' font='' @ MONO_FONT @
        u '' size='' @ py_str_int BODY_SIZE,
      message @ u '' | color='' @ COLOR_DIM @ u '' font='' @ MONO_FONT @
        u '' size='' @ py_str_int SMALL_SIZE]"

text \<open>\<open>_print_footer()\<close>, source lines 477-480.\<close>

definition print_footer :: "pystr list" where
  "print_footer =
     [u ''Open Terminal Monitor | font='' @ MONO_FONT @ u '' size='' @ py_str_int BODY_SIZE @
        u '' bash=ccm terminal=true'',
      u ''Refresh | font='' @ MONO_FONT @ u '' size='' @ py_str_int BODY_SIZE @
        u '' refresh=true'']"

definition PLAN_LABELS :: "(pystr \<times> pystr) list" where
  "PLAN_LABELS =
     [(u ''pro'', u ''Pro''), (u ''max5'', u ''Max 5''), (u ''max20'', u ''Max 20''),
      (u ''custom'', u ''Custom'')]"

text \<open>
  \<open>_print_plan_submenu(current_plan)\<close>, source lines 463-474. \<open>PLAN_LABELS[plan_key]\<close>
  is defined for each of the four keys of \<open>VALID_PLANS\<close>.
\<close>

definition print_plan_submenu :: "pystr \<Rightarrow> pystr \<Rightarrow> pystr list" where
  "print_plan_submenu script current_plan =
     (let label = (case map_of PLAN_LABELS current_plan of
                     Some l \<Rightarrow> l | None \<Rightarrow> py_upper current_plan)
      in (u ''Plan: '' @ label @ u '' | color='' @ COLOR_WHITE @ u '' font='' @ MONO_FONT @
            u '' size='' @ py_str_int BODY_SIZE) #
         map (\<lambda>plan_key.
                let plan_label = the (map_of PLAN_LABELS plan_key);
                    check = (if plan_key = current_plan then [CHECK_MARK, 32] else u ''   '')
                in u ''--'' @ check @ plan_label @ u '' | font='' @ MONO_FONT @
                   u '' size='' @ py_str_int SMALL_SIZE @ u '' bash='' @ script @
                   u '' param1=--set-plan param2='' @ plan_key @
                   u '' terminal=false refresh=true'')
           VALID_PLANS)"

text \<open>\<open>_print_display_submenu(current_display)\<close>, source lines 451-460.\<close>

definition print_display_submenu :: "pystr \<Rightarrow> pystr list \<Rightarrow> pystr list" where
  "print_display_submenu script current_display =
     (u ''Display | color='' @ COLOR_WHITE @ u '' font='' @ MONO_FONT @
        u '' size='' @ py_str_int BODY_SIZE) #
     map (\<lambda>(key, label).
            let check = (if key \<in> set current_display then [CHECK_MARK, 32] else u ''   '')
            in u ''--'' @ check @ label @ u '' | font='' @ MONO_FONT @
               u '' size='' @ py_str_int SMALL_SIZE @ u '' bash='' @ script @
               u '' param1=--toggle-display param2='' @ key @
               u '' terminal=false refresh=true'')
       DISPLAY_METRICS"

text \<open>\<open>_format_title\<close>, source lines 426-448, named \<open>format_title\<close> here.\<close>

definition title_part ::
  "real \<Rightarrow> real \<Rightarrow> real \<Rightarrow> real \<Rightarrow> int \<Rightarrow> int \<Rightarrow> pystr \<Rightarrow> pystr list" where
  "title_part token_pct cost_pct msg_pct cost messages msg_limit key =
     (if key = u ''token_pct'' then [u ''TKN '' @ py_format_f 0 token_pct @ u ''%'']
      else if key = u ''cost'' then [u ''CST '' @ fmt_cost cost]
      else if key = u ''cost_pct'' then [u ''CST '' @ py_format_f 0 cost_pct @ u ''%'']
      else if key = u ''msg'' then
        [u ''MSG '' @ py_str_int messages @ u ''/'' @ py_str_int msg_limit]
      else if key = u ''msg_pct'' then [u ''MSG '' @ py_format_f 0 msg_pct @ u ''%'']
      else [])"

definition format_title ::
  "pystr list \<Rightarrow> real \<Rightarrow> real \<Rightarrow> real \<Rightarrow> real \<Rightarrow> int \<Rightarrow> int \<Rightarrow> pystr" where
  "format_title display token_pct cost_pct msg_pct cost messages msg_limit =
     (let parts = concat (map (title_part token_pct cost_pct msg_pct cost messages msg_limit)
                     display)
      in if parts \<noteq> [] then py_join (u ''  '') parts else u ''CCM'')"

subsection \<open>The analyzer library\<close>

text \<open>
  A dict with string keys is an association list, as in the settings store.
\<close>

type_synonym 'v pydict = "(pystr \<times> 'v) list"

text \<open>
  An accounting window as \<open>analyze_usage\<close> returns it: a dict whose entries have the
  types the library documents. A field is \<open>None\<close> when the key is missing, which is
  where \<open>b.get(key, default)\<close> yields the default. \<open>burnRate\<close> and \<open>projection\<close> are
  dicts of numbers, \<open>perModelStats\<close> maps a model name to its statistics, a dict of
  numbers or, for the test \<open>isinstance(stats, dict)\<close>, something else; a limit message
  is a dict read at the keys \<open>type\<close> and \<open>reset_time\<close>.
\<close>

datatype model_stats = StatsDict "real pydict" | StatsOther

record limit_message =
  lm_type :: "pystr option"
  lm_reset_time :: "pystr option"

record block =
  isActive :: "bool option"
  totalTokens :: "int option"
  costUSD :: "real option"
  sentMessagesCount :: "int option"
  durationMinutes :: "real option"
  burnRate :: "real pydict option"
  projection :: "real pydict option"
  endTime :: "pystr option"
  perModelStats :: "model_stats pydict option"
  limitMessages :: "limit_message list option"

text \<open>
  The library as the script uses it. \<open>importable\<close>: the two \<open>import\<close> statements
  succeed (they raise \<open>ImportError\<close> otherwise). \<open>analyze_usage\<close>: the call
  \<open>analyze_usage(hours_back=24, quick_start=True)\<close> raises an exception whose \<open>str\<close> is
  the message (\<open>Inl\<close>), or returns a dict, given by its value for the key \<open>blocks\<close>
  (\<open>None\<close> when the key is missing). The three limit lookups of \<open>Plans\<close> return a
  number or raise.
\<close>

record analyzer =
  importable :: bool
  analyze_usage :: "pystr + block list option"
  get_token_limit :: "pystr \<Rightarrow> block list \<Rightarrow> py_error + int"
  get_cost_limit :: "pystr \<Rightarrow> py_error + real"
  get_message_limit :: "pystr \<Rightarrow> py_error + int"

subsection \<open>Date and time\<close>

text \<open>
  What the script uses of \<open>datetime\<close>, over some type \<open>'t\<close> of points in time:
  \<open>datetime.now(timezone.utc) + timedelta(minutes=m)\<close>, \<open>datetime.fromisoformat(s)\<close>,
  \<open>dt.astimezone()\<close> and \<open>dt.strftime("%-I:%M %p")\<close>. Each returns or raises.
\<close>

record 't clock =
  now_plus_minutes :: "real \<Rightarrow> py_error + 't"
  fromisoformat :: "pystr \<Rightarrow> py_error + 't"
  astimezone :: "'t \<Rightarrow> py_error + 't"
  strftime :: "'t \<Rightarrow> py_error + pystr"

text \<open>\<open>fmt_time(dt)\<close>, source lines 142-145.\<close>

definition fmt_time :: "'t clock \<Rightarrow> 't \<Rightarrow> py_error + pystr" where
  "fmt_time clock dt =
     (case astimezone clock dt of
        Inl e \<Rightarrow> Inl e
      | Inr local \<Rightarrow> strftime clock local)"

subsection \<open>main\<close>

text \<open>
  A run of printing code: the lines printed, in order, and the exception that ended
  it, if any. \<open>and_then r1 r2\<close> is \<open>r1\<close> followed by \<open>r2\<close>; \<open>r2\<close> is not reached
  when \<open>r1\<close> has raised.
\<close>

type_synonym run = "pystr list \<times> py_error option"

definition printed :: "pystr list \<Rightarrow> run" where
  "printed ls = (ls, None)"

definition raised :: "py_error \<Rightarrow> run" where
  "raised e = ([], Some e)"

definition and_then :: "run \<Rightarrow> run \<Rightarrow> run" where
  "and_then r1 r2 = (case snd r1 of Some e \<Rightarrow> r1 | None \<Rightarrow> (fst r1 @ fst r2, snd r2))"

text \<open>\<open>(v / limit * 100) if limit > 0 else 0\<close>, source lines 318-320.\<close>

definition percent :: "(real \<Rightarrow> real) \<Rightarrow> real \<Rightarrow> real \<Rightarrow> real" where
  "percent fl v limit = (if limit > 0 then fl (fl (v / limit) * 100) else 0)"

text \<open>Source lines 257-270: what is printed when the library cannot be imported.\<close>

definition not_installed_lines :: "pystr list" where
  "not_installed_lines =
     print_error (u ''claude-monitor not installed'') (u ''Install: pip install claude-monitor'') @
     [u ''---'',
      u ''Install claude-monitor | font='' @ MONO_FONT @ u '' size='' @ py_str_int BODY_SIZE @
        u '' bash='' @ [39] @ u ''pip'' @ [39] @ u '' param1='' @ [39] @ u ''install'' @ [39] @
        u '' param2='' @ [39] @ u ''claude-monitor'' @ [39] @ u '' terminal=true'']"

text \<open>Source lines 281-284: the idle display for an empty block list.\<close>

definition idle_lines :: "pystr list" where
  "idle_lines =
     [u ''CCM  Idle | color='' @ COLOR_GRAY @ u '' font='' @ TITLE_FONT @
        u '' size='' @ py_str_int TITLE_SIZE @ u '' offset='' @ py_str_int TITLE_OFFSET,
      u ''---'',
      u ''No usage data found | color='' @ COLOR_DIM @ u '' font='' @ MONO_FONT @
        u '' size='' @ py_str_int BODY_SIZE,
      u ''Start a Claude Code session to see metrics | color='' @ COLOR_DIM @
        u '' font='' @ MONO_FONT @ u '' size='' @ py_str_int SMALL_SIZE]"

text \<open>
  Source lines 290-301: the summary of the last block when no block is active; the
  variable \<open>last\<close> is written \<open>last_block\<close>.
\<close>

definition last_session_lines :: "block \<Rightarrow> pystr list" where
  "last_session_lines last_block =
     (let tokens = (case totalTokens last_block of Some t \<Rightarrow> t | None \<Rightarrow> 0);
          cost = (case costUSD last_block of Some c \<Rightarrow> c | None \<Rightarrow> 0);
          msgs = (case sentMessagesCount last_block of Some m \<Rightarrow> m | None \<Rightarrow> 0);
          dur = (case durationMinutes last_block of Some d \<Rightarrow> d | None \<Rightarrow> 0)
      in [u ''CCM  Idle | color='' @ COLOR_GRAY @ u '' font='' @ TITLE_FONT @
            u '' size='' @ py_str_int TITLE_SIZE @ u '' offset='' @ py_str_int TITLE_OFFSET,
          u ''---'',
          u ''Last Session | color='' @ COLOR_WHITE @ u '' font='' @ MONO_FONT @
            u '' size='' @ py_str_int BODY_SIZE,
          u ''  TKN  '' @ py_rjust 10 (fmt_number tokens) @ u ''     MSG  '' @ py_str_int msgs @
            u '' | font='' @ MONO_FONT @ u '' size='' @ py_str_int SMALL_SIZE @
            u '' color='' @ COLOR_DIM,
          u ''  CST  '' @ py_rjust 10 (fmt_cost cost) @ u ''     DUR  '' @ fmt_duration dur @
            u '' | font='' @ MONO_FONT @ u '' size='' @ py_str_int SMALL_SIZE @
            u '' color='' @ COLOR_DIM,
          u ''---''] @
         print_footer)"

text \<open>
  Source lines 313-352: the metrics of the active block, the title line, the two
  submenus and the bars with their counts.
\<close>

definition dashboard_lines ::
  "(real \<Rightarrow> real) \<Rightarrow> 'a world_scheme \<Rightarrow> pystr \<Rightarrow> block \<Rightarrow> int \<Rightarrow> real \<Rightarrow> int \<Rightarrow> pystr list" where
  "dashboard_lines fl w plan block token_limit cost_limit msg_limit =
     (let tokens = (case totalTokens block of Some t \<Rightarrow> t | None \<Rightarrow> 0);
          cost = (case costUSD block of Some c \<Rightarrow> c | None \<Rightarrow> 0);
          messages = (case sentMessagesCount block of Some m \<Rightarrow> m | None \<Rightarrow> 0);
          duration = (case durationMinutes block of Some d \<Rightarrow> d | None \<Rightarrow> 0);
          token_pct = percent fl (real_of_int tokens) (real_of_int token_limit);
          cost_pct = percent fl cost cost_limit;
          msg_pct = percent fl (real_of_int messages) (real_of_int msg_limit);
          max_pct = max token_pct (max cost_pct msg_pct);
          color = get_color max_pct;
          display = get_display w;
          title = format_title display token_pct cost_pct msg_pct cost messages msg_limit;
          tkn_color = get_color token_pct;
          cst_color = get_color cost_pct;
          msg_color = get_color msg_pct
      in [title @ u '' | color='' @ color @ u '' font='' @ TITLE_FONT @
            u '' size='' @ py_str_int TITLE_SIZE @ u '' offset='' @ py_str_int TITLE_OFFSET,
          u ''---''] @
         print_plan_submenu (script_path w) plan @
         print_display_submenu (script_path w) display @
         [u ''---'',
          u ''Tokens | color='' @ COLOR_WHITE @ u '' font='' @ MONO_FONT @
            u '' size='' @ py_str_int BODY_SIZE,
          u ''  '' @ bar_graph fl token_pct 16 @ u ''  '' @ py_format_f 1 token_pct @
            u ''% | color='' @ tkn_color @ u '' font='' @ MONO_FONT @
            u '' size='' @ py_str_int SMALL_SIZE,
          u ''  '' @ fmt_number tokens @ u '' / '' @ fmt_number token_limit @
            u '' | color='' @ COLOR_DIM @ u '' font='' @ MONO_FONT @
            u '' size='' @ py_str_int SMALL_SIZE,
          u ''Cost | color='' @ COLOR_WHITE @ u '' font='' @ MONO_FONT @
            u '' size='' @ py_str_int BODY_SIZE,
          u ''  '' @ bar_graph fl cost_pct 16 @ u ''  '' @ py_format_f 1 cost_pct @
            u ''% | color='' @ cst_color @ u '' font='' @ MONO_FONT @
            u '' size='' @ py_str_int SMALL_SIZE,
          u ''  '' @ fmt_cost cost @ u '' / '' @ fmt_cost cost_limit @
            u '' | color='' @ COLOR_DIM @ u '' font='' @ MONO_FONT @
            u '' size='' @ py_str_int SMALL_SIZE,
          u ''Messages | color='' @ COLOR_WHITE @ u '' font='' @ MONO_FONT @
            u '' size='' @ py_str_int BODY_SIZE,
          u ''  '' @ bar_graph fl msg_pct 16 @ u ''  '' @ py_format_f 1 msg_pct @
            u ''% | color='' @ msg_color @ u '' font='' @ MONO_FONT @
            u '' size='' @ py_str_int SMALL_SIZE,
          u ''  '' @ fmt_number messages @ u '' / '' @ fmt_number msg_limit @
            u '' | color='' @ COLOR_DIM @ u '' font='' @ MONO_FONT @
            u '' size='' @ py_str_int SMALL_SIZE,
          u ''Duration | color='' @ COLOR_WHITE @ u '' font='' @ MONO_FONT @
            u '' size='' @ py_str_int BODY_SIZE,
          u ''  '' @ fmt_duration duration @ u '' | color='' @ COLOR_DIM @
            u '' font='' @ MONO_FONT @ u '' size='' @ py_str_int SMALL_SIZE])"

text \<open>
  Source lines 354-365: the separator and the burn rate. A dict is true when it is not
  empty; \<open>cph / 60 if cph else 0\<close> divides when \<open>cph\<close> is not zero.
\<close>

definition truthy_dict :: "'v pydict option \<Rightarrow> bool" where
  "truthy_dict d \<longleftrightarrow> (case d of Some kvs \<Rightarrow> kvs \<noteq> [] | None \<Rightarrow> False)"

definition burn_rate_lines :: "(real \<Rightarrow> real) \<Rightarrow> block \<Rightarrow> pystr list" where
  "burn_rate_lines fl block =
     (if truthy_dict (burnRate block) \<or> truthy_dict (projection block) then [u ''---'']
      else []) @
     (case burnRate block of
        None \<Rightarrow> []
      | Some burn_rate \<Rightarrow>
          if burn_rate = [] then []
          else let tpm = (case map_of burn_rate (u ''tokensPerMinute'') of
                            Some x \<Rightarrow> x | None \<Rightarrow> 0);
                   cph = (case map_of burn_rate (u ''costPerHour'') of
                            Some x \<Rightarrow> x | None \<Rightarrow> 0);
                   cost_per_min = (if cph \<noteq> 0 then fl (cph / 60) else 0)
               in [u ''Burn  '' @ py_format_f 0 tpm @ u '' tok/min  '' @ fmt_cost cost_per_min @
                     u ''/min | color='' @ COLOR_LABEL @ u '' font='' @ MONO_FONT @
                     u '' size='' @ py_str_int SMALL_SIZE])"

text \<open>
  Source lines 367-371: the projected exhaustion. Nothing here is inside a \<open>try\<close>.
\<close>

definition projection_run :: "'t clock \<Rightarrow> block \<Rightarrow> run" where
  "projection_run clock block =
     (case projection block of
        None \<Rightarrow> printed []
      | Some proj \<Rightarrow>
          if proj = [] then printed []
          else let remaining = (case map_of proj (u ''remainingMinutes'') of
                                  Some x \<Rightarrow> x | None \<Rightarrow> 0)
               in if remaining \<noteq> 0 \<and> remaining > 0 then
                    (case now_plus_minutes clock remaining of
                       Inl e \<Rightarrow> raised e
                     | Inr exhaust_time \<Rightarrow>
                         (case fmt_time clock exhaust_time of
                            Inl e \<Rightarrow> raised e
                          | Inr t \<Rightarrow>
                              printed
                                [u ''ETA   '' @ fmt_duration remaining @ u '' left '' @
                                   [RIGHT_ARROW] @ u '' '' @ t @ u '' | color='' @
                                   COLOR_LABEL @ u '' font='' @ MONO_FONT @
                                   u '' size='' @ py_str_int SMALL_SIZE]))
                  else printed [])"

text \<open>
  \<open>try: ... except (ValueError, TypeError): pass\<close>: the two exceptions that the
  handlers of the reset times catch.
\<close>

definition caught :: "py_error \<Rightarrow> bool" where
  "caught e \<longleftrightarrow> e = ValueError \<or> e = TypeError"

text \<open>Source lines 374-380: the reset time, parsed from \<open>endTime\<close>.\<close>

definition reset_run :: "'t clock \<Rightarrow> block \<Rightarrow> run" where
  "reset_run clock block =
     (case endTime block of
        None \<Rightarrow> printed []
      | Some end_time_str \<Rightarrow>
          if end_time_str = [] then printed []
          else (case fromisoformat clock end_time_str of
                  Inl e \<Rightarrow> if caught e then printed [] else raised e
                | Inr end_time \<Rightarrow>
                    (case fmt_time clock end_time of
                       Inl e \<Rightarrow> if caught e then printed [] else raised e
                     | Inr t \<Rightarrow>
                         printed
                           [u ''Reset '' @ t @ u '' | color='' @ COLOR_LABEL @
                              u '' font='' @ MONO_FONT @ u '' size='' @ py_str_int SMALL_SIZE])))"

text \<open>
  Source lines 383-402: the share of each model. \<open>sorted(..., reverse=True)\<close> is
  stable: it sorts by descending key and keeps the order of entries with equal keys,
  as the stable \<open>sort_key\<close> does on the negated key.
\<close>

definition stats_tokens :: "model_stats \<Rightarrow> real" where
  "stats_tokens stats =
     (case stats of
        StatsDict d \<Rightarrow> (case map_of d (u ''totalTokens'') of Some t \<Rightarrow> t | None \<Rightarrow> 0)
      | StatsOther \<Rightarrow> 0)"

definition model_line :: "(real \<Rightarrow> real) \<Rightarrow> int \<Rightarrow> pystr \<times> model_stats \<Rightarrow> pystr list" where
  "model_line fl tokens entry =
     (case snd entry of
        StatsOther \<Rightarrow> []
      | StatsDict d \<Rightarrow>
          let model_tokens = (case map_of d (u ''totalTokens'') of Some t \<Rightarrow> t | None \<Rightarrow> 0);
              pct = percent fl model_tokens (real_of_int tokens);
              short_name = fst entry;
              short_name = (if length short_name > 22 then take 22 short_name @ [ELLIPSIS]
                            else short_name);
              m_color = (if pct > 50 then get_color pct else COLOR_DIM)
          in [u ''  '' @ py_ljust 24 short_name @ u '' '' @ py_rjust 3 (py_format_f 0 pct) @
                u ''% | color='' @ m_color @ u '' font='' @ MONO_FONT @
                u '' size='' @ py_str_int SMALL_SIZE])"

definition models_lines :: "(real \<Rightarrow> real) \<Rightarrow> int \<Rightarrow> block \<Rightarrow> pystr list" where
  "models_lines fl tokens block =
     (let per_model = (case perModelStats block of Some d \<Rightarrow> d | None \<Rightarrow> [])
      in if per_model \<noteq> [] \<and> tokens > 0 then
           [u ''---'',
            u ''Models | color='' @ COLOR_WHITE @ u '' font='' @ MONO_FONT @
              u '' size='' @ py_str_int BODY_SIZE] @
           concat (map (model_line fl tokens)
             (sort_key (\<lambda>x. - stats_tokens (snd x)) per_model))
         else [])"

text \<open>Source lines 405-419: up to three limit warnings.\<close>

definition limit_message_run :: "'t clock \<Rightarrow> limit_message \<Rightarrow> run" where
  "limit_message_run clock lm =
     (let ltype = (case lm_type lm of Some t \<Rightarrow> t | None \<Rightarrow> u ''unknown'');
          msg = u ''  '' @ ltype;
          attrs = u '' | font='' @ MONO_FONT @ u '' size='' @ py_str_int SMALL_SIZE @
                  u '' color='' @ COLOR_RED
      in case lm_reset_time lm of
           None \<Rightarrow> printed [msg @ attrs]
         | Some reset \<Rightarrow>
             if reset = [] then printed [msg @ attrs]
             else (case fromisoformat clock reset of
                     Inl e \<Rightarrow> if caught e then printed [msg @ attrs] else raised e
                   | Inr rt \<Rightarrow>
                       (case fmt_time clock rt of
                          Inl e \<Rightarrow> if caught e then printed [msg @ attrs] else raised e
                        | Inr t \<Rightarrow>
                            printed
                              [msg @ u '' '' @ [RIGHT_ARROW] @ u '' resets '' @ t @ attrs])))"

definition limit_run :: "'t clock \<Rightarrow> block \<Rightarrow> run" where
  "limit_run clock block =
     (let limit_msgs = (case limitMessages block of Some ms \<Rightarrow> ms | None \<Rightarrow> [])
      in if limit_msgs \<noteq> [] then
           foldl and_then
             (printed
               [u ''---'',
                [WARNING_SIGN] @ u '' Limit Reached | color='' @ COLOR_RED @
                  u '' font='' @ MONO_FONT @ u '' size='' @ py_str_int BODY_SIZE])
             (map (limit_message_run clock) (take 3 limit_msgs))
         else printed [])"

text \<open>
  Source lines 313-423: everything \<open>main\<close> prints for the active block, once the
  plan and its three limits are known.
\<close>

definition dashboard_run ::
  "(real \<Rightarrow> real) \<Rightarrow> 't clock \<Rightarrow> 'a world_scheme \<Rightarrow> pystr \<Rightarrow> block \<Rightarrow> int \<Rightarrow> real \<Rightarrow> int \<Rightarrow> run" where
  "dashboard_run fl clock w plan block token_limit cost_limit msg_limit =
     (let tokens = (case totalTokens block of Some t \<Rightarrow> t | None \<Rightarrow> 0)
      in and_then
           (printed
             (dashboard_lines fl w plan block token_limit cost_limit msg_limit @
              burn_rate_lines fl block))
           (and_then (projection_run clock block)
             (and_then (reset_run clock block)
               (and_then (printed (models_lines fl tokens block))
                 (and_then (limit_run clock block)
                   (printed (u ''---'' # print_footer)))))))"

text \<open>
  \<open>main()\<close>, source lines 255-423. An exception of a limit lookup, or of the date and
  time functions outside a \<open>try\<close>, is not caught and ends the run.
\<close>

definition main :: "(real \<Rightarrow> real) \<Rightarrow> 't clock \<Rightarrow> analyzer \<Rightarrow> 'a world_scheme \<Rightarrow> run" where
  "main fl clock lib w =
     (if \<not> importable lib then printed not_installed_lines
      else case analyze_usage lib of
        Inl e \<Rightarrow> printed (print_error (u ''Error loading data'') (take 80 e))
      | Inr result \<Rightarrow>
          let blocks = (case result of Some bs \<Rightarrow> bs | None \<Rightarrow> [])
          in if blocks = [] then printed idle_lines
             else let active_blocks = filter (\<lambda>b. isActive b = Some True) blocks
               in if active_blocks = [] then printed (last_session_lines (last blocks))
                  else let block = hd active_blocks;
                           plan = get_plan w
                    in case get_token_limit lib plan blocks of
                         Inl e \<Rightarrow> raised e
                       | Inr token_limit \<Rightarrow>
                           (case get_cost_limit lib plan of
                              Inl e \<Rightarrow> raised e
                            | Inr cost_limit \<Rightarrow>
                                (case get_message_limit lib plan of
                                   Inl e \<Rightarrow> raised e
                                 | Inr msg_limit \<Rightarrow>
                                     dashboard_run fl clock w plan block
                                       token_limit cost_limit msg_limit)))"



text \<open>
  A sample snapshot: an active block with 50000 tokens, a cost of 5.00, 12 messages
  and 125 minutes, a burn rate, a projection, an end time, two models and a limit
  message, after a copy of it that is not active; limits 100000, 10.00 and 250 for
  every plan. The sample clock takes a point in time to be a number of minutes,
  parses no string but \<open>2025-01-01T05:00:00+00:00\<close>, and prints every time as
  \<open>5:00 AM\<close>.
\<close>

definition example_block :: block where
  "example_block =
     \<lparr>isActive = Some True, totalTokens = Some 50000, costUSD = Some 5,
      sentMessagesCount = Some 12, durationMinutes = Some 125,
      burnRate = Some [(u ''tokensPerMinute'', 400), (u ''costPerHour'', 2.4)],
      projection = Some [(u ''remainingMinutes'', 90)],
      endTime = Some (u ''2025-01-01T05:00:00+00:00''),
      perModelStats = Some
        [(u ''claude-sonnet-4'', StatsDict [(u ''totalTokens'', 10000)]),
         (u ''claude-opus-4-1-20250805-long'', StatsDict [(u ''totalTokens'', 40000)])],
      limitMessages = Some
        [\<lparr>lm_type = Some (u ''opus_limit''), lm_reset_time = Some (u ''tomorrow'')\<rparr>]\<rparr>"

definition example_analyzer :: analyzer where
  "example_analyzer =
     \<lparr>importable = True,
      analyze_usage = Inr (Some [example_block\<lparr>isActive := Some False\<rparr>, example_block]),
      get_token_limit = (\<lambda>plan blocks. Inr 100000),
      get_cost_limit = (\<lambda>plan. Inr 10),
      get_message_limit = (\<lambda>plan. Inr 250)\<rparr>"

definition example_clock :: "nat clock" where
  "example_clock =
     \<lparr>now_plus_minutes = (\<lambda>m. Inr (nat \<lfloor>m\<rfloor>)),
      fromisoformat = (\<lambda>s. if s = u ''2025-01-01T05:00:00+00:00'' then Inr 300
                            else Inl ValueError),
      astimezone = (\<lambda>t. Inr t),
      strftime = (\<lambda>t. Inr (u ''5:00 AM''))\<rparr>"


section \<open>Properties\<close>

subsection \<open>Colour tiers\<close>

lemma tier_colors_distinct:
  "distinct [COLOR_RED, COLOR_ORANGE, COLOR_YELLOW, COLOR_GREEN]"
  by (simp add: COLOR_RED_def COLOR_ORANGE_def COLOR_YELLOW_def COLOR_GREEN_def u_def)

text \<open>
  Claim C5. For every percentage, \<open>get_color\<close> returns exactly one of the four tier
  colours, chosen by thresholds with inclusive lower bounds: red exactly when
  \<open>pct \<ge> 95\<close>, orange exactly when \<open>80 \<le> pct < 95\<close>, yellow exactly when
  \<open>50 \<le> pct < 80\<close>, green exactly when \<open>pct < 50\<close>. The four colours are pairwise
  different, so each equivalence also says that no other colour is returned; the
  boundary values 50, 80 and 95 get the colour of the higher tier.
\<close>

theorem get_color_tiers:
  "(get_color pct = COLOR_RED \<longleftrightarrow> 95 \<le> pct) \<and>
   (get_color pct = COLOR_ORANGE \<longleftrightarrow> 80 \<le> pct \<and> pct < 95) \<and>
   (get_color pct = COLOR_YELLOW \<longleftrightarrow> 50 \<le> pct \<and> pct < 80) \<and>
   (get_color pct = COLOR_GREEN \<longleftrightarrow> pct < 50) \<and>
   get_color pct \<in> {COLOR_RED, COLOR_ORANGE, COLOR_YELLOW, COLOR_GREEN} \<and>
   get_color 50 = COLOR_YELLOW \<and> get_color 80 = COLOR_ORANGE \<and> get_color 95 = COLOR_RED"
  using tier_colors_distinct by (auto simp: get_color_def)

theorem get_color_tiers_witness:
  "get_color 79.9 = COLOR_YELLOW \<and> get_color 94.9 = COLOR_ORANGE \<and>
   get_color 49.9 = COLOR_GREEN \<and> get_color 120 = COLOR_RED"
  using get_color_tiers [of "79.9"] get_color_tiers [of "94.9"]
    get_color_tiers [of "49.9"] get_color_tiers [of 120]
  by simp

subsection \<open>Float rounding and truncation\<close>


lemma float_rounding_dyadic:
  "float_rounding fl \<Longrightarrow> \<bar>k\<bar> \<le> 2 ^ 53 \<Longrightarrow> n \<le> 1074 \<Longrightarrow>
     fl (real_of_int k / 2 ^ n) = real_of_int k / 2 ^ n"
  by (simp add: float_rounding_def)

lemma float_rounding_int:
  assumes "float_rounding fl" "\<bar>k\<bar> \<le> 2 ^ 53"
  shows "fl (real_of_int k) = real_of_int k"
  using float_rounding_dyadic [OF assms, of 0] by simp


lemma float_rounding_exact: "float_rounding (\<lambda>x. x)"
  by (simp add: float_rounding_def)


subsection \<open>Bar graph\<close>











subsection \<open>Fixed-point formatting\<close>






subsection \<open>Loading the display list\<close>

lemma DEFAULT_DISPLAY_valid: "DEFAULT_DISPLAY \<noteq> [] \<and> set DEFAULT_DISPLAY \<subseteq> valid_keys"
  by (simp add: DEFAULT_DISPLAY_def valid_keys_def DISPLAY_METRICS_def)

lemma filter_valid_recognized: "filter_valid ds = Inr r \<Longrightarrow> r = recognized ds"
  by (induction ds arbitrary: r) (auto simp: recognized_def split: json.splits sum.splits)

lemma recognized_valid: "set (recognized ds) \<subseteq> valid_keys"
  by (auto simp: recognized_def)

lemma filter_valid_strs: "filter_valid (map JStr xs) = Inr (filter (\<lambda>s. s \<in> valid_keys) xs)"
  by (induction xs) auto

lemma get_display_cases:
  "get_display w = DEFAULT_DISPLAY \<or>
   (get_display w = recognized (stored_display (config_file w)) \<and>
    recognized (stored_display (config_file w)) \<noteq> [])"
  by (auto simp: get_display_def get_display_try_def py_get_def stored_display_def
      split: file_state.splits json.splits sum.splits option.splits if_splits
      dest: filter_valid_recognized)

lemma get_display_valid: "get_display w \<noteq> [] \<and> set (get_display w) \<subseteq> valid_keys"
  using get_display_cases [of w] DEFAULT_DISPLAY_valid recognized_valid by metis

text \<open>
  Claim C2. In every state of the settings file \<open>get_display\<close> returns a non-empty
  list of recognized identifiers; the list is the default \<open>[token_pct, cost]\<close>
  whenever the file is missing or does not load, or the stored value filtered to the
  recognized identifiers is empty (no \<open>display\<close> list, an empty one, or one with
  unrecognized entries only).
\<close>

theorem get_display_never_empty:
  "get_display w \<noteq> [] \<and> set (get_display w) \<subseteq> valid_keys \<and>
   (config_file w = Absent \<or> config_file w = Unreadable \<or>
    recognized (stored_display (config_file w)) = [] \<longrightarrow> get_display w = DEFAULT_DISPLAY) \<and>
   DEFAULT_DISPLAY = [u ''token_pct'', u ''cost'']"
proof -
  have "get_display w = DEFAULT_DISPLAY"
    if "config_file w = Absent \<or> config_file w = Unreadable"
    using that by (auto simp: get_display_def)
  then show ?thesis
    using get_display_cases [of w] get_display_valid [of w]
    by (auto simp: DEFAULT_DISPLAY_def)
qed

theorem get_display_never_empty_witness:
  "recognized (stored_display (config_file (settings_with_display [JStr (u ''bogus'')]))) = [] \<and>
   get_display (settings_with_display [JStr (u ''bogus'')]) = [u ''token_pct'', u ''cost'']"
  using get_display_never_empty [of "settings_with_display [JStr (u ''bogus'')]"]
  by (simp add: settings_with_display_def stored_display_def recognized_def valid_keys_def
      DISPLAY_METRICS_def u_def)

subsection \<open>Saving one key\<close>

lemma save_config_obj:
  "config_file w = Doc (JObj kvs) \<Longrightarrow>
     save_config key v w =
       (if config_writable w then Inr (w\<lparr>config_file := Doc (JObj (AList.update key v kvs))\<rparr>)
        else Inl OSError)"
  by (simp add: save_config_def py_setitem_def)

lemma save_config_empty:
  "config_file w = Absent \<or> config_file w = Unreadable \<Longrightarrow>
     save_config key v w =
       (if config_writable w then Inr (w\<lparr>config_file := Doc (JObj [(key, v)])\<rparr>)
        else Inl OSError)"
  by (auto simp: save_config_def py_setitem_def)

lemma save_config_Inr:
  assumes "save_config key v w = Inr w'"
  shows "config_writable w \<and>
    (\<exists>kvs. (config_file w = Doc (JObj kvs) \<or>
            (config_file w = Absent \<or> config_file w = Unreadable) \<and> kvs = []) \<and>
       w' = w\<lparr>config_file := Doc (JObj (AList.update key v kvs))\<rparr>)"
  using assms
  by (auto simp: save_config_def py_setitem_def
      split: file_state.splits json.splits if_splits)

text \<open>
  Claim C9. Saving is read-merge-write. When the prior file holds a document (a JSON
  object) and the save returns, the written document maps the saved key to the new
  value and every other key to its prior value, and nothing else of the environment
  changes. When the prior file is missing or does not load, it counts as empty and the
  written document holds the saved key only. In both cases the save returns whenever
  the file can be written.
\<close>

theorem save_config_frame:
  "(config_file w = Doc (JObj kvs) \<and> save_config key v w = Inr w' \<longrightarrow>
      (\<exists>kvs'. w' = w\<lparr>config_file := Doc (JObj kvs')\<rparr> \<and> map_of kvs' key = Some v \<and>
         (\<forall>k. k \<noteq> key \<longrightarrow> map_of kvs' k = map_of kvs k))) \<and>
   ((config_file w = Absent \<or> config_file w = Unreadable) \<and> save_config key v w = Inr w' \<longrightarrow>
      w' = w\<lparr>config_file := Doc (JObj [(key, v)])\<rparr>) \<and>
   (config_writable w \<and>
      (config_file w = Absent \<or> config_file w = Unreadable \<or> config_file w = Doc (JObj kvs)) \<longrightarrow>
      (\<exists>w'. save_config key v w = Inr w'))"
  by (auto simp: save_config_obj save_config_empty update_conv' split: if_splits)

theorem save_config_frame_witness:
  "config_file (settings_with_display [JStr (u ''msg'')]) =
     Doc (JObj [(u ''display'', JArr [JStr (u ''msg'')])]) \<and>
   config_writable (settings_with_display [JStr (u ''msg'')]) \<and>
   save_config (u ''plan'') (JStr (u ''max5'')) (settings_with_display [JStr (u ''msg'')]) =
     Inr ((settings_with_display [JStr (u ''msg'')])
       \<lparr>config_file := Doc (JObj [(u ''display'', JArr [JStr (u ''msg'')]),
                                  (u ''plan'', JStr (u ''max5''))])\<rparr>) \<and>
   map_of [(u ''display'', JArr [JStr (u ''msg'')]), (u ''plan'', JStr (u ''max5''))]
       (u ''display'') =
     map_of [(u ''display'', JArr [JStr (u ''msg'')])] (u ''display'')"
  using save_config_frame [of "settings_with_display [JStr (u ''msg'')]"
      "[(u ''display'', JArr [JStr (u ''msg'')])]" "u ''plan''" "JStr (u ''max5'')"
      "(settings_with_display [JStr (u ''msg'')])
       \<lparr>config_file := Doc (JObj [(u ''display'', JArr [JStr (u ''msg'')]),
                                  (u ''plan'', JStr (u ''max5''))])\<rparr>"]
  by (simp add: settings_with_display_def save_config_def py_setitem_def u_def)

subsection \<open>Toggling a metric\<close>

lemma get_display_after_save:
  assumes "save_config (u ''display'') (JArr (map JStr xs)) w = Inr w'"
    and "xs \<noteq> []" and "set xs \<subseteq> valid_keys"
  shows "get_display w' = xs \<and> stored_display (config_file w') = map JStr xs"
proof -
  from save_config_Inr [OF assms(1)] obtain kvs where
    "w' = w\<lparr>config_file := Doc (JObj (AList.update (u ''display'') (JArr (map JStr xs)) kvs))\<rparr>"
    by blast
  moreover have "filter (\<lambda>s. s \<in> valid_keys) xs = xs"
    using assms(3) by (auto simp: filter_id_conv)
  ultimately show ?thesis
    using assms(2)
    by (simp add: get_display_def get_display_try_def py_get_def update_conv' filter_valid_strs
        stored_display_def)
qed

lemma toggled_valid:
  "m \<in> valid_keys \<Longrightarrow> set xs \<subseteq> valid_keys \<Longrightarrow>
     toggled m xs \<noteq> [] \<and> set (toggled m xs) \<subseteq> valid_keys"
  using DEFAULT_DISPLAY_valid set_remove1_subset [of m xs]
  by (auto simp: toggled_def Let_def)

lemma toggle_display_get:
  assumes "toggle_display m w = Inr w'" and "m \<in> valid_keys"
  shows "get_display w' = toggled m (get_display w) \<and>
    stored_display (config_file w') = map JStr (toggled m (get_display w))"
proof -
  have "save_config (u ''display'') (JArr (map JStr (toggled m (get_display w)))) w = Inr w'"
    using assms(1) by (simp add: toggle_display_def toggled_def Let_def)
  then show ?thesis
    using toggled_valid [OF assms(2), of "get_display w"] get_display_valid [of w]
    by (simp add: get_display_after_save)
qed

lemma toggle_twice_get:
  assumes "toggle_twice m w = Inr w2" and "m \<in> valid_keys"
  shows "\<exists>w1. toggle_display m w = Inr w1 \<and> toggle_display m w1 = Inr w2 \<and>
    get_display w1 = toggled m (get_display w) \<and>
    get_display w2 = toggled m (toggled m (get_display w)) \<and>
    stored_display (config_file w2) = map JStr (toggled m (toggled m (get_display w)))"
proof -
  from assms(1) obtain w1 where w1: "toggle_display m w = Inr w1" "toggle_display m w1 = Inr w2"
    by (auto simp: toggle_twice_def split: sum.splits)
  then show ?thesis
    using toggle_display_get [OF w1(1) assms(2)] toggle_display_get [OF w1(2) assms(2)]
    by simp
qed

lemma toggled_twice_absent:
  "m \<notin> set xs \<Longrightarrow> xs \<noteq> [] \<Longrightarrow> toggled m (toggled m xs) = xs"
  by (simp add: toggled_def Let_def remove1_append)

lemma toggled_twice_present:
  assumes "m \<in> set xs" "distinct xs" "2 \<le> length xs"
  shows "toggled m (toggled m xs) = remove1 m xs @ [m]"
proof -
  have "length (remove1 m xs) = length xs - 1"
    using assms by (simp add: length_remove1)
  with assms have "remove1 m xs \<noteq> []" by auto
  moreover have "m \<notin> set (remove1 m xs)" using assms by simp
  ultimately show ?thesis using assms by (simp add: toggled_def Let_def)
qed

lemma toggled_twice_single:
  "toggled m [m] = DEFAULT_DISPLAY \<and> set (toggled m DEFAULT_DISPLAY) \<noteq> {m}"
proof -
  have 1: "toggled m [m] = DEFAULT_DISPLAY"
    by (simp add: toggled_def)
  have 2: "u ''token_pct'' \<noteq> u ''cost''"
    by (simp add: u_def)
  have "set (toggled m DEFAULT_DISPLAY) \<noteq> {m}"
  proof (cases "m \<in> set DEFAULT_DISPLAY")
    case True
    then have "m \<notin> set (remove1 m DEFAULT_DISPLAY)" "remove1 m DEFAULT_DISPLAY \<noteq> []"
      using 2 by (auto simp: DEFAULT_DISPLAY_def)
    then show ?thesis using True
      by (auto simp: toggled_def)
  next
    case False
    then show ?thesis
      using 2 by (auto simp: toggled_def DEFAULT_DISPLAY_def)
  qed
  with 1 show ?thesis by blast
qed

lemma single_or_two: "m \<in> set xs \<Longrightarrow> xs \<noteq> [m] \<Longrightarrow> 2 \<le> length xs"
proof (cases xs)
  case Nil
  assume "m \<in> set xs"
  with Nil show ?thesis by simp
next
  case (Cons x ys)
  assume "m \<in> set xs" "xs \<noteq> [m]"
  with Cons show ?thesis by (cases ys) auto
qed

text \<open>
  Claim C3, amended: for every state of the settings in which the loaded display list
  has no repeated identifier, and every recognized metric \<open>m\<close>, two completed toggles
  of \<open>m\<close> restore the enabled set, except when the loaded list is exactly \<open>[m]\<close>:
  then the first toggle saves the default list instead of an empty one, and the
  enabled set after the second toggle differs from the prior one.
\<close>

theorem toggle_display_involutive:
  assumes "m \<in> valid_keys" and "distinct (get_display w)" and "toggle_twice m w = Inr w2"
  shows "(get_display w \<noteq> [m] \<longrightarrow> set (get_display w2) = set (get_display w)) \<and>
         (get_display w = [m] \<longrightarrow>
            (\<exists>w1. toggle_display m w = Inr w1 \<and> get_display w1 = DEFAULT_DISPLAY) \<and>
            set (get_display w2) \<noteq> set (get_display w))"
proof -
  from toggle_twice_get [OF assms(3) assms(1)] obtain w1 where
    w1: "toggle_display m w = Inr w1" "get_display w1 = toggled m (get_display w)"
    and w2: "get_display w2 = toggled m (toggled m (get_display w))"
    by blast
  let ?xs = "get_display w"
  have ne: "?xs \<noteq> []" using get_display_valid [of w] by simp
  have "set (get_display w2) = set ?xs" if "?xs \<noteq> [m]"
  proof (cases "m \<in> set ?xs")
    case False
    then show ?thesis using w2 ne by (simp add: toggled_twice_absent)
  next
    case True
    have "2 \<le> length ?xs"
      using True that by (rule single_or_two)
    then have "get_display w2 = remove1 m ?xs @ [m]"
      using True assms(2) w2 by (simp add: toggled_twice_present)
    then show ?thesis using True by (auto simp: set_remove1_eq [OF assms(2)])
  qed
  moreover have "(\<exists>w1. toggle_display m w = Inr w1 \<and> get_display w1 = DEFAULT_DISPLAY) \<and>
      set (get_display w2) \<noteq> set ?xs" if "?xs = [m]"
  proof -
    have "get_display w1 = DEFAULT_DISPLAY"
      using w1(2) that toggled_twice_single [of m] by simp
    moreover have "set (get_display w2) \<noteq> set ?xs"
      using w2 that toggled_twice_single [of m] by simp
    ultimately show ?thesis using w1(1) by blast
  qed
  ultimately show ?thesis by blast
qed

text \<open>
  Claim C10, amended: for every state of the settings in which the loaded display
  list (the recognized entries of the stored list) has at least two entries, no
  repeated one, and contains \<open>m\<close>, two completed toggles of \<open>m\<close> persist the loaded
  list with \<open>m\<close> removed from its position and appended at the end: the same set of
  identifiers, and a different list unless \<open>m\<close> was the last entry.
\<close>

theorem toggle_display_reorders:
  assumes "m \<in> set (get_display w)" and "distinct (get_display w)"
    and "2 \<le> length (get_display w)" and "toggle_twice m w = Inr w2"
  shows "stored_display (config_file w2) = map JStr (remove1 m (get_display w) @ [m]) \<and>
         get_display w2 = remove1 m (get_display w) @ [m] \<and>
         set (get_display w2) = set (get_display w) \<and>
         (last (get_display w) \<noteq> m \<longrightarrow> get_display w2 \<noteq> get_display w)"
proof -
  have v: "m \<in> valid_keys" using assms(1) get_display_valid [of w] by auto
  from toggle_twice_get [OF assms(4) v] toggled_twice_present [OF assms(1-3)]
  have g: "get_display w2 = remove1 m (get_display w) @ [m]"
    and s: "stored_display (config_file w2) = map JStr (remove1 m (get_display w) @ [m])"
    by auto
  have "set (get_display w2) = set (get_display w)"
    using g assms(1) by (auto simp: set_remove1_eq [OF assms(2)])
  moreover have "get_display w2 \<noteq> get_display w" if "last (get_display w) \<noteq> m"
    using that g by (metis last_snoc)
  ultimately show ?thesis using g s by blast
qed


text \<open>
  Claim C3, as stated, for every enabled set: it fails when the stored list repeats an
  identifier, since \<open>current.remove(metric)\<close> removes the first occurrence only.
  With \<open>{"display": ["cost", "cost", "token_pct"]}\<close> the enabled set is
  \<open>{cost, token_pct}\<close>; the first toggle of \<open>cost\<close> saves \<open>["cost", "token_pct"]\<close>,
  the second saves \<open>["token_pct"]\<close>, and the enabled set is \<open>{token_pct}\<close>.
\<close>

theorem toggle_display_duplicates_counterexample:
  "u ''cost'' \<in> valid_keys \<and>
   get_display (settings_with_display
     [JStr (u ''cost''), JStr (u ''cost''), JStr (u ''token_pct'')]) =
     [u ''cost'', u ''cost'', u ''token_pct''] \<and>
   toggle_twice (u ''cost'') (settings_with_display
     [JStr (u ''cost''), JStr (u ''cost''), JStr (u ''token_pct'')]) =
     Inr (settings_with_display [JStr (u ''token_pct'')]) \<and>
   get_display (settings_with_display [JStr (u ''token_pct'')]) = [u ''token_pct''] \<and>
   set [u ''token_pct''] \<noteq> set [u ''cost'', u ''cost'', u ''token_pct'']"
  by code_simp

theorem toggle_display_involutive_witness:
  "u ''cost'' \<in> valid_keys \<and>
   distinct (get_display (settings_with_display
     [JStr (u ''token_pct''), JStr (u ''cost''), JStr (u ''msg'')])) \<and>
   toggle_twice (u ''cost'') (settings_with_display
     [JStr (u ''token_pct''), JStr (u ''cost''), JStr (u ''msg'')]) =
     Inr (settings_with_display [JStr (u ''token_pct''), JStr (u ''msg''), JStr (u ''cost'')]) \<and>
   get_display (settings_with_display
     [JStr (u ''token_pct''), JStr (u ''cost''), JStr (u ''msg'')]) \<noteq> [u ''cost''] \<and>
   set (get_display (settings_with_display
     [JStr (u ''token_pct''), JStr (u ''msg''), JStr (u ''cost'')])) =
   set (get_display (settings_with_display
     [JStr (u ''token_pct''), JStr (u ''cost''), JStr (u ''msg'')]))"
proof -
  let ?w = "settings_with_display [JStr (u ''token_pct''), JStr (u ''cost''), JStr (u ''msg'')]"
  let ?w2 = "settings_with_display [JStr (u ''token_pct''), JStr (u ''msg''), JStr (u ''cost'')]"
  have a: "u ''cost'' \<in> valid_keys" by code_simp
  have b: "distinct (get_display ?w)" by code_simp
  have c: "toggle_twice (u ''cost'') ?w = Inr ?w2" by code_simp
  have d: "get_display ?w \<noteq> [u ''cost'']" by code_simp
  from toggle_display_involutive [OF a b c] d
  have "set (get_display ?w2) = set (get_display ?w)" by blast
  with a b c d show ?thesis by blast
qed

text \<open>
  Claim C10, as stated, for every stored list with at least two elements that contains
  \<open>m\<close>: it fails when fewer than two of the stored entries are recognized and
  different. The stored list \<open>["cost", "bogus"]\<close> loads as \<open>["cost"]\<close>; toggling
  \<open>cost\<close> twice persists the default and then \<open>["token_pct"]\<close>. The stored list
  \<open>["cost", "cost"]\<close> becomes \<open>["cost"]\<close> and then the default
  \<open>["token_pct", "cost"]\<close>. Neither is the prior set of elements.
\<close>

theorem toggle_display_reorders_counterexample:
  "toggle_twice (u ''cost'') (settings_with_display [JStr (u ''cost''), JStr (u ''bogus'')]) =
     Inr (settings_with_display [JStr (u ''token_pct'')]) \<and>
   toggle_twice (u ''cost'') (settings_with_display [JStr (u ''cost''), JStr (u ''cost'')]) =
     Inr (settings_with_display [JStr (u ''token_pct''), JStr (u ''cost'')]) \<and>
   set [u ''token_pct''] \<noteq> set [u ''cost'', u ''bogus''] \<and>
   set [u ''token_pct'', u ''cost''] \<noteq> set [u ''cost'', u ''cost'']"
  by code_simp

theorem toggle_display_reorders_witness:
  "u ''token_pct'' \<in> set (get_display (settings_with_display
     [JStr (u ''token_pct''), JStr (u ''cost'')])) \<and>
   distinct (get_display (settings_with_display [JStr (u ''token_pct''), JStr (u ''cost'')])) \<and>
   2 \<le> length (get_display (settings_with_display
     [JStr (u ''token_pct''), JStr (u ''cost'')])) \<and>
   toggle_twice (u ''token_pct'') (settings_with_display
     [JStr (u ''token_pct''), JStr (u ''cost'')]) =
     Inr (settings_with_display [JStr (u ''cost''), JStr (u ''token_pct'')]) \<and>
   last (get_display (settings_with_display [JStr (u ''token_pct''), JStr (u ''cost'')])) \<noteq>
     u ''token_pct'' \<and>
   get_display (settings_with_display [JStr (u ''cost''), JStr (u ''token_pct'')]) \<noteq>
     get_display (settings_with_display [JStr (u ''token_pct''), JStr (u ''cost'')])"
proof -
  let ?w = "settings_with_display [JStr (u ''token_pct''), JStr (u ''cost'')]"
  let ?w2 = "settings_with_display [JStr (u ''cost''), JStr (u ''token_pct'')]"
  have a: "u ''token_pct'' \<in> set (get_display ?w)" by code_simp
  have b: "distinct (get_display ?w)" by code_simp
  have c: "2 \<le> length (get_display ?w)" by code_simp
  have d: "toggle_twice (u ''token_pct'') ?w = Inr ?w2" by code_simp
  have e: "last (get_display ?w) \<noteq> u ''token_pct''" by code_simp
  from toggle_display_reorders [OF a b c d] e
  have "get_display ?w2 \<noteq> get_display ?w" by blast
  with a b c d e show ?thesis by blast
qed

subsection \<open>Block selection and the title line\<close>

text \<open>\<open>PLAN_LABELS[plan_key]\<close> in the plan submenu never raises \<open>KeyError\<close>.\<close>

lemma PLAN_LABELS_defined: "plan_key \<in> set VALID_PLANS \<Longrightarrow> map_of PLAN_LABELS plan_key \<noteq> None"
  by (auto simp: VALID_PLANS_def PLAN_LABELS_def)





lemma filter_first:
  "\<forall>a \<in> set pre. \<not> P a \<Longrightarrow> P b \<Longrightarrow> filter P (pre @ b # post) = b # filter P post"
  by (simp add: filter_empty_conv)

lemma main_active_block:
  assumes "importable lib" and "analyze_usage lib = Inr (Some (pre @ b # post))"
    and "\<forall>a \<in> set pre. isActive a \<noteq> Some True" and "isActive b = Some True"
  shows "main fl clock lib w =
    (case get_token_limit lib (get_plan w) (pre @ b # post) of
       Inl e \<Rightarrow> raised e
     | Inr token_limit \<Rightarrow>
         (case get_cost_limit lib (get_plan w) of
            Inl e \<Rightarrow> raised e
          | Inr cost_limit \<Rightarrow>
              (case get_message_limit lib (get_plan w) of
                 Inl e \<Rightarrow> raised e
               | Inr msg_limit \<Rightarrow>
                   dashboard_run fl clock w (get_plan w) b token_limit cost_limit msg_limit)))"
proof -
  have "filter (\<lambda>b. isActive b = Some True) (pre @ b # post) =
      b # filter (\<lambda>b. isActive b = Some True) post"
    using assms(3,4) by (simp add: filter_first)
  then show ?thesis
    using assms(1,2) by (simp add: main_def Let_def)
qed



lemma percent_half:
  assumes "float_rounding fl"
  shows "percent fl 50000 100000 = 50 \<and> percent fl 5 10 = 50"
proof -
  have h: "fl (1 / 2) = 1 / 2"
    using float_rounding_dyadic [OF assms, of 1 1] by simp
  have f: "fl 50 = 50"
    using float_rounding_int [OF assms, of 50] by simp
  show ?thesis
    by (simp add: percent_def h f)
qed

lemma format_title_default:
  "format_title DEFAULT_DISPLAY 50 cost_pct msg_pct 5 messages msg_limit = u ''TKN 50%  CST $5.00''"
  by (simp add: format_title_def DEFAULT_DISPLAY_def title_part_def fmt_cost_def
      py_format_f_def round_half_even_def zfill_def digits.simps u_def)

lemma dashboard_lines_title:
  "\<exists>rest. dashboard_lines fl w plan b token_limit cost_limit msg_limit =
     (format_title (get_display w)
        (percent fl (real_of_int (case totalTokens b of Some t \<Rightarrow> t | None \<Rightarrow> 0))
           (real_of_int token_limit))
        (percent fl (case costUSD b of Some c \<Rightarrow> c | None \<Rightarrow> 0) cost_limit)
        (percent fl (real_of_int (case sentMessagesCount b of Some m \<Rightarrow> m | None \<Rightarrow> 0))
           (real_of_int msg_limit))
        (case costUSD b of Some c \<Rightarrow> c | None \<Rightarrow> 0)
        (case sentMessagesCount b of Some m \<Rightarrow> m | None \<Rightarrow> 0) msg_limit @
      u '' | color='' @
      get_color (max
        (percent fl (real_of_int (case totalTokens b of Some t \<Rightarrow> t | None \<Rightarrow> 0))
           (real_of_int token_limit))
        (max (percent fl (case costUSD b of Some c \<Rightarrow> c | None \<Rightarrow> 0) cost_limit)
           (percent fl (real_of_int (case sentMessagesCount b of Some m \<Rightarrow> m | None \<Rightarrow> 0))
              (real_of_int msg_limit)))) @
      u '' font='' @ TITLE_FONT @ u '' size='' @ py_str_int TITLE_SIZE @
      u '' offset='' @ py_str_int TITLE_OFFSET) # rest"
  by (simp add: dashboard_lines_def Let_def)

lemma dashboard_run_first_line:
  "dashboard_lines fl w plan b token_limit cost_limit msg_limit = l # ls \<Longrightarrow>
     \<exists>rest. fst (dashboard_run fl clock w plan b token_limit cost_limit msg_limit) = l # rest"
  by (simp add: dashboard_run_def Let_def and_then_def printed_def split: option.splits)

lemma title_attributes:
  "u '' font='' @ TITLE_FONT @ u '' size='' @ py_str_int TITLE_SIZE @
     u '' offset='' @ py_str_int TITLE_OFFSET = u '' font=SFMono-Regular size=12 offset=2''"
  by (simp add: TITLE_FONT_def TITLE_SIZE_def TITLE_OFFSET_def py_str_int_def digits.simps u_def)

text \<open>
  Claim C7. For a snapshot whose first active block has \<open>totalTokens = 50000\<close> and
  \<open>costUSD = 5.00\<close>, with token limit 100000, cost limit 10.00, the default display
  metrics enabled and a message percentage that does not exceed the token percentage,
  the first line printed is the title \<open>TKN 50%  CST $5.00\<close>, which contains \<open>TKN 50%\<close>
  and \<open>CST $5.00\<close>, with the colour of the 50% tier, \<open>get_color\<close> of the maximum of the
  three percentages, which is 50.
\<close>

theorem title_end_to_end:
  assumes "float_rounding fl"
    and "importable lib" and "analyze_usage lib = Inr (Some (pre @ b # post))"
    and "\<forall>a \<in> set pre. isActive a \<noteq> Some True" and "isActive b = Some True"
    and "totalTokens b = Some 50000" and "costUSD b = Some 5"
    and "get_token_limit lib (get_plan w) (pre @ b # post) = Inr 100000"
    and "get_cost_limit lib (get_plan w) = Inr 10"
    and "get_message_limit lib (get_plan w) = Inr msg_limit"
    and "get_display w = DEFAULT_DISPLAY"
    and "percent fl (real_of_int (case sentMessagesCount b of Some m \<Rightarrow> m | None \<Rightarrow> 0))
           (real_of_int msg_limit) \<le> percent fl 50000 100000"
  shows "(\<exists>rest. fst (main fl clock lib w) =
            (u ''TKN 50%  CST $5.00'' @ u '' | color='' @ COLOR_YELLOW @
             u '' font=SFMono-Regular size=12 offset=2'') # rest) \<and>
         sublist (u ''TKN 50%'') (u ''TKN 50%  CST $5.00'') \<and>
         sublist (u ''CST $5.00'') (u ''TKN 50%  CST $5.00'') \<and>
         get_color 50 = COLOR_YELLOW \<and>
         max (percent fl 50000 100000)
           (max (percent fl 5 10)
              (percent fl (real_of_int (case sentMessagesCount b of Some m \<Rightarrow> m | None \<Rightarrow> 0))
                 (real_of_int msg_limit))) = 50"
proof -
  let ?mp = "percent fl (real_of_int (case sentMessagesCount b of Some m \<Rightarrow> m | None \<Rightarrow> 0))
           (real_of_int msg_limit)"
  let ?title = "u ''TKN 50%  CST $5.00'' @ u '' | color='' @ COLOR_YELLOW @
          u '' font=SFMono-Regular size=12 offset=2''"
  note half = percent_half [OF assms(1)]
  have mp: "?mp \<le> 50" using assms(12) half by simp
  then have mx: "max (percent fl 50000 100000) (max (percent fl 5 10) ?mp) = 50"
    using half by simp
  have y: "get_color 50 = COLOR_YELLOW"
    by (simp add: get_color_def)
  have m: "main fl clock lib w = dashboard_run fl clock w (get_plan w) b 100000 10 msg_limit"
    using main_active_block [OF assms(2-5), of fl clock w] assms(8-10) by simp
  obtain ls where "dashboard_lines fl w (get_plan w) b 100000 10 msg_limit = ?title # ls"
    using dashboard_lines_title [of fl w "get_plan w" b 100000 10 msg_limit]
      assms(6,7,11) half mx y
    by (auto simp: format_title_default title_attributes)
  from dashboard_run_first_line [OF this, of clock]
  have "\<exists>rest. fst (main fl clock lib w) = ?title # rest"
    using m by simp
  moreover have "sublist (u ''TKN 50%'') (u ''TKN 50%  CST $5.00'')"
    unfolding sublist_def
    by (rule exI [of _ "[]"], rule exI [of _ "u ''  CST $5.00''"]) (simp add: u_def)
  moreover have "sublist (u ''CST $5.00'') (u ''TKN 50%  CST $5.00'')"
    unfolding sublist_def
    by (rule exI [of _ "u ''TKN 50%  ''"], rule exI [of _ "[]"]) (simp add: u_def)
  ultimately show ?thesis using mx y by blast
qed

theorem title_end_to_end_witness:
  "float_rounding (\<lambda>x. x) \<and> importable example_analyzer \<and>
   analyze_usage example_analyzer =
     Inr (Some ([example_block\<lparr>isActive := Some False\<rparr>] @ example_block # [])) \<and>
   isActive example_block = Some True \<and>
   totalTokens example_block = Some 50000 \<and> costUSD example_block = Some 5 \<and>
   get_display (settings_with_display []) = DEFAULT_DISPLAY \<and>
   percent (\<lambda>x. x) (real_of_int (case sentMessagesCount example_block of
       Some m \<Rightarrow> m | None \<Rightarrow> 0)) (real_of_int 250) \<le> percent (\<lambda>x. x) 50000 100000 \<and>
   hd (fst (main (\<lambda>x. x) example_clock example_analyzer (settings_with_display []))) =
     u ''TKN 50%  CST $5.00 | color=#FFD95C font=SFMono-Regular size=12 offset=2''"
proof -
  let ?w = "settings_with_display []"
  let ?off = "example_block\<lparr>isActive := Some False\<rparr>"
  have i: "importable example_analyzer"
    by (simp add: example_analyzer_def)
  have a: "analyze_usage example_analyzer = Inr (Some ([?off] @ example_block # []))"
    by (simp add: example_analyzer_def)
  have p: "\<forall>a \<in> set [?off]. isActive a \<noteq> Some True"
    by simp
  have b: "isActive example_block = Some True"
    and t: "totalTokens example_block = Some 50000"
    and c: "costUSD example_block = Some 5"
    by (simp_all add: example_block_def)
  have l1: "get_token_limit example_analyzer (get_plan ?w) ([?off] @ example_block # []) =
      Inr 100000"
    and l2: "get_cost_limit example_analyzer (get_plan ?w) = Inr 10"
    and l3: "get_message_limit example_analyzer (get_plan ?w) = Inr 250"
    by (simp_all add: example_analyzer_def)
  have d: "get_display ?w = DEFAULT_DISPLAY"
    by (simp add: settings_with_display_def get_display_def get_display_try_def py_get_def)
  have m: "percent (\<lambda>x. x) (real_of_int (case sentMessagesCount example_block of
       Some m \<Rightarrow> m | None \<Rightarrow> 0)) (real_of_int 250) \<le> percent (\<lambda>x. x) 50000 100000"
    by (simp add: percent_def example_block_def)
  from title_end_to_end [OF float_rounding_exact i a p b t c l1 l2 l3 d m, of example_clock]
  obtain rest where "fst (main (\<lambda>x. x) example_clock example_analyzer ?w) =
      (u ''TKN 50%  CST $5.00'' @ u '' | color='' @ COLOR_YELLOW @
         u '' font=SFMono-Regular size=12 offset=2'') # rest"
    by blast
  then have "hd (fst (main (\<lambda>x. x) example_clock example_analyzer ?w)) =
     u ''TKN 50%  CST $5.00 | color=#FFD95C font=SFMono-Regular size=12 offset=2''"
    by (simp add: COLOR_YELLOW_def u_def)
  with i a b t c d m float_rounding_exact show ?thesis by blast
qed

subsection \<open>Exceptions and exit codes\<close>



















end
